theory Spec2Isabelle
  imports Main "HOL-Library.Sublist"
begin

section \<open>Values thrown and values parsed\<close>

text \<open>
  A JavaScript value as far as \<open>err.meta?.target\<close> can hold one: the handler of
  \<open>addTeamEmailVerification\<close> passes it to \<open>z.array(z.string()).safeParse\<close>, which
  accepts it only when it is an array whose elements are all strings.
\<close>

datatype jsval =
    JUndefined
  | JNull
  | JBool bool
  | JNum int
  | JStr string
  | JArr "jsval list"
  | JObj "(string \<times> jsval) list"

text \<open>The two codes of \<open>AppErrorCode\<close> that the source names, and any other one.\<close>

datatype AppErrorCode = ALREADY_EXISTS | INVALID_REQUEST | OtherAppErrorCode string

text \<open>
  What can be thrown: an \<open>AppError\<close> (code, message), a
  \<open>Prisma.PrismaClientKnownRequestError\<close> (message, code, optional \<open>meta\<close> object), or
  any other value (a mail transport failure, a connection error).
\<close>

datatype error =
    AppError AppErrorCode string
  | PrismaClientKnownRequestError string string "(string \<times> jsval) list option"
  | OtherError string

type_synonym 'a result = "error + 'a"

text \<open>\<open>z.string().safeParse(v)\<close>: the string itself, or failure.\<close>

fun z_string_safeParse :: "jsval \<Rightarrow> string option" where
  "z_string_safeParse (JStr s) = Some s"
| "z_string_safeParse _ = None"

text \<open>Parsing the elements of an array one by one; one failure fails the whole array.\<close>

fun z_strings_safeParse :: "jsval list \<Rightarrow> string list option" where
  "z_strings_safeParse [] = Some []"
| "z_strings_safeParse (v # vs) =
     (case z_string_safeParse v of
        None \<Rightarrow> None
      | Some s \<Rightarrow> (case z_strings_safeParse vs of None \<Rightarrow> None | Some ss \<Rightarrow> Some (s # ss)))"

text \<open>\<open>z.array(z.string()).safeParse(v)\<close>: \<open>Some data\<close> when \<open>success\<close>, else \<open>None\<close>.\<close>

fun z_array_string_safeParse :: "jsval \<Rightarrow> string list option" where
  "z_array_string_safeParse (JArr vs) = z_strings_safeParse vs"
| "z_array_string_safeParse _ = None"

text \<open>\<open>err.meta?.target\<close>: \<open>undefined\<close> when there is no \<open>meta\<close> or no such property.\<close>

definition meta_target :: "(string \<times> jsval) list option \<Rightarrow> jsval" where
  "meta_target meta =
     (case meta of
        None \<Rightarrow> JUndefined
      | Some props \<Rightarrow> (case map_of props ''target'' of None \<Rightarrow> JUndefined | Some v \<Rightarrow> v))"

text \<open>
  The body of the \<open>catch\<close> block, as the error the caller observes. Anything that is not
  a known request error is rethrown; a known request error is replaced only for code
  \<open>P2002\<close> with a parsed target that includes \<open>email\<close>.
\<close>

definition catch_handler :: "error \<Rightarrow> error" where
  "catch_handler err =
     (case err of
        PrismaClientKnownRequestError msg code meta \<Rightarrow>
          (case z_array_string_safeParse (meta_target meta) of
             Some data \<Rightarrow>
               if code = ''P2002'' \<and> ''email'' \<in> set data
               then AppError ALREADY_EXISTS ''Email already taken by another team.''
               else err
           | None \<Rightarrow> err)
      | _ \<Rightarrow> err)"

section \<open>The database\<close>

text \<open>
  The four tables that \<open>addTeamEmailVerification\<close> reads or writes, with the columns its
  queries name. Rows are kept in table order; \<open>findFirst\<close> returns the first match.
  Ids are JavaScript numbers, dates are milliseconds since the epoch.
\<close>

record Team =
  team_id :: int
  team_name :: string
  team_url :: string

record TeamMember =
  member_teamId :: int
  member_userId :: int
  member_role :: string

record TeamEmail =
  teamEmail_teamId :: int
  teamEmail_email :: string
  teamEmail_name :: string

record TeamEmailVerification =
  verification_teamId :: int
  verification_email :: string
  verification_name :: string
  verification_token :: string
  verification_expiresAt :: int
  verification_createdAt :: int

record database =
  teams :: "Team list"
  teamMembers :: "TeamMember list"
  teamEmails :: "TeamEmail list"
  teamEmailVerifications :: "TeamEmailVerification list"

text \<open>The result of the team query: the row with its two included relations.\<close>

record TeamWithEmail =
  found_team :: Team
  found_email :: "TeamEmail option"
  found_emailVerification :: "TeamEmailVerification option"

section \<open>The environment\<close>

text \<open>
  Everything the code reads from outside itself: the constants it imports
  (\<open>TEAM_MEMBER_ROLE_PERMISSIONS_MAP['MANAGE_TEAM']\<close>, \<open>WEBAPP_BASE_URL\<close>, \<open>FROM_NAME\<close>,
  \<open>FROM_ADDRESS\<close>), the process variable \<open>NEXT_PUBLIC_WEBAPP_URL\<close>, the two clock
  readings taken while minting a token (\<open>DateTime.now()\<close>, then \<open>new Date()\<close>), the random
  bytes \<open>nanoid\<close> draws, the mail renderer, and the outcome of the two calls that act on
  the outside world: the insert (which the database may reject) and the mail transport.
\<close>

record ConfirmTeamEmailTemplate =
  assetBaseUrl :: string
  baseUrl :: string
  teamName :: string
  teamUrl :: string
  template_token :: string

record env =
  MANAGE_TEAM :: "string list"
  WEBAPP_BASE_URL :: string
  FROM_NAME :: string
  FROM_ADDRESS :: string
  NEXT_PUBLIC_WEBAPP_URL :: "string option"
  DateTime_now :: int
  Date_now :: int
  random_bytes :: "nat \<Rightarrow> nat"
  render :: "ConfirmTeamEmailTemplate \<Rightarrow> bool \<Rightarrow> string"
  create_rejects :: "error option"
  sendMail_rejects :: "error option"

section \<open>Minting the token\<close>

text \<open>
  \<open>nanoid(n)\<close> of the nanoid library: \<open>n\<close> characters, each the entry of the
  64-character URL alphabet selected by the low six bits of one random byte.
\<close>

definition urlAlphabet :: string where
  "urlAlphabet = ''useandom-26T198340PX75pxJACKVERYMINDBUSHWOLF_GQZbfghjklqvwyzrict''"

definition nanoid :: "env \<Rightarrow> nat \<Rightarrow> string" where
  "nanoid e n = map (\<lambda>i. urlAlphabet ! (random_bytes e i mod 64)) [0..<n]"

record TeamEmailVerificationToken =
  expiresAt :: int
  token :: string
  createdAt :: int

text \<open>\<open>plus({ minute: 10 })\<close> adds ten minutes of sixty thousand milliseconds each.\<close>

definition generateTeamEmailVerificationToken :: "env \<Rightarrow> TeamEmailVerificationToken" where
  "generateTeamEmailVerificationToken e =
     \<lparr> expiresAt = DateTime_now e + 10 * 60000,
       token = nanoid e 32,
       createdAt = Date_now e \<rparr>"

section \<open>Sending the confirmation mail\<close>

record mail =
  mail_to :: string
  mail_from_name :: string
  mail_from_address :: string
  mail_subject :: string
  mail_html :: string
  mail_text :: string

text \<open>
  \<open>a || b\<close> on strings: \<open>b\<close> when \<open>a\<close> is undefined or empty.
\<close>

definition or_default :: "string option \<Rightarrow> string \<Rightarrow> string" where
  "or_default a b = (case a of None \<Rightarrow> b | Some s \<Rightarrow> if s = [] then b else s)"

text \<open>
  The function returns its outcome and the messages it handed to \<open>mailer.sendMail\<close>.
  The transport may reject; the message was handed over all the same.
\<close>

definition sendTeamEmailVerificationEmail ::
  "env \<Rightarrow> string \<Rightarrow> string \<Rightarrow> string \<Rightarrow> string \<Rightarrow> unit result \<times> mail list" where
  "sendTeamEmailVerificationEmail e email tok tName tUrl =
     (let template =
            \<lparr> assetBaseUrl = or_default (NEXT_PUBLIC_WEBAPP_URL e) ''http://localhost:3000'',
              baseUrl = WEBAPP_BASE_URL e,
              teamName = tName,
              teamUrl = tUrl,
              template_token = tok \<rparr>;
          message =
            \<lparr> mail_to = email,
              mail_from_name = FROM_NAME e,
              mail_from_address = FROM_ADDRESS e,
              mail_subject =
                ''A request to use your email has been initiated by '' @ tName @ '' on Documenso'',
              mail_html = render e template False,
              mail_text = render e template True \<rparr>
      in (case sendMail_rejects e of None \<Rightarrow> Inr () | Some err \<Rightarrow> Inl err, [message]))"

section \<open>The queries of the transaction client\<close>

text \<open>
  \<open>members: { some: { userId, role: { in: ... } } }\<close>: the team has a member row of that
  user whose role is one of the \<open>MANAGE_TEAM\<close> roles.
\<close>

definition members_some :: "env \<Rightarrow> database \<Rightarrow> int \<Rightarrow> Team \<Rightarrow> bool" where
  "members_some e tx uid t =
     list_ex (\<lambda>m. member_teamId m = team_id t \<and> member_userId m = uid
                  \<and> member_role m \<in> set (MANAGE_TEAM e))
       (teamMembers tx)"

text \<open>What \<open>findFirstOrThrow\<close> throws when no row matches: Prisma's error \<open>P2025\<close>.\<close>

definition NotFoundError :: error where
  "NotFoundError = PrismaClientKnownRequestError ''No Team found'' ''P2025'' None"

definition team_findFirstOrThrow :: "env \<Rightarrow> database \<Rightarrow> int \<Rightarrow> int \<Rightarrow> TeamWithEmail result" where
  "team_findFirstOrThrow e tx tid uid =
     (case find (\<lambda>t. team_id t = tid \<and> members_some e tx uid t) (teams tx) of
        None \<Rightarrow> Inl NotFoundError
      | Some t \<Rightarrow>
          Inr \<lparr> found_team = t,
                found_email = find (\<lambda>x. teamEmail_teamId x = team_id t) (teamEmails tx),
                found_emailVerification =
                  find (\<lambda>x. verification_teamId x = team_id t) (teamEmailVerifications tx) \<rparr>)"

definition teamEmail_findFirst :: "database \<Rightarrow> string \<Rightarrow> TeamEmail option" where
  "teamEmail_findFirst tx addr = find (\<lambda>x. teamEmail_email x = addr) (teamEmails tx)"

text \<open>The insert: the database either rejects it or appends the row.\<close>

definition teamEmailVerification_create ::
  "env \<Rightarrow> database \<Rightarrow> TeamEmailVerification \<Rightarrow> database result" where
  "teamEmailVerification_create e tx row =
     (case create_rejects e of
        Some err \<Rightarrow> Inl err
      | None \<Rightarrow> Inr (tx\<lparr>teamEmailVerifications := teamEmailVerifications tx @ [row]\<rparr>))"

section \<open>addTeamEmailVerification\<close>

text \<open>
  The options of a call; \<open>data_email\<close> and \<open>data_name\<close> are \<open>data.email\<close> and
  \<open>data.name\<close>.
\<close>

record AddTeamEmailVerificationOptions =
  userId :: int
  teamId :: int
  data_email :: string
  data_name :: string

text \<open>What a call does that can be observed from outside, in the order it does it.\<close>

datatype event =
    Transaction_begin
  | Team_findFirstOrThrow int int
  | TeamEmail_findFirst string
  | GenerateToken TeamEmailVerificationToken
  | TeamEmailVerification_create TeamEmailVerification
  | Mailer_sendMail mail
  | Transaction_commit
  | Transaction_rollback
  | Console_error error

text \<open>
  The \<open>data\<close> of the insert: \<open>{ ...token, email: data.email, name: data.name, teamId }\<close>.
\<close>

definition create_data ::
  "AddTeamEmailVerificationOptions \<Rightarrow> TeamEmailVerificationToken \<Rightarrow> TeamEmailVerification" where
  "create_data opts tok =
     \<lparr> verification_teamId = teamId opts,
       verification_email = data_email opts,
       verification_name = data_name opts,
       verification_token = token tok,
       verification_expiresAt = expiresAt tok,
       verification_createdAt = createdAt tok \<rparr>"

text \<open>
  The callback given to \<open>prisma.$transaction\<close>. It works on the transaction client's view
  \<open>tx\<close> of the database and returns its outcome, the view it leaves and its events.
\<close>

definition transaction_callback ::
  "env \<Rightarrow> AddTeamEmailVerificationOptions \<Rightarrow> database \<Rightarrow> unit result \<times> database \<times> event list" where
  "transaction_callback e opts tx =
     (let ev1 = [Team_findFirstOrThrow (teamId opts) (userId opts)] in
      case team_findFirstOrThrow e tx (teamId opts) (userId opts) of
        Inl err \<Rightarrow> (Inl err, tx, ev1)
      | Inr team \<Rightarrow>
          if found_email team \<noteq> None \<or> found_emailVerification team \<noteq> None
          then (Inl (AppError INVALID_REQUEST
                       ''Team already has an email or existing email verification.''), tx, ev1)
          else
            (let ev2 = ev1 @ [TeamEmail_findFirst (data_email opts)] in
             case teamEmail_findFirst tx (data_email opts) of
               Some existingTeamEmail \<Rightarrow>
                 (Inl (AppError ALREADY_EXISTS ''Email already taken by another team.''), tx, ev2)
             | None \<Rightarrow>
                 (let tok = generateTeamEmailVerificationToken e;
                      row = create_data opts tok;
                      ev4 = ev2 @ [GenerateToken tok, TeamEmailVerification_create row]
                  in case teamEmailVerification_create e tx row of
                       Inl err \<Rightarrow> (Inl err, tx, ev4)
                     | Inr tx' \<Rightarrow>
                         (case sendTeamEmailVerificationEmail e (data_email opts) (token tok)
                                 (team_name (found_team team)) (team_url (found_team team)) of
                            (r, msgs) \<Rightarrow> (r, tx', ev4 @ map Mailer_sendMail msgs)))))"

text \<open>
  \<open>prisma.$transaction(callback)\<close>: the callback runs on the database as it is; when it
  returns, what it wrote is committed, and when it throws, what it wrote is discarded and
  the error is passed on.
\<close>

definition prisma_transaction ::
  "(database \<Rightarrow> unit result \<times> database \<times> event list) \<Rightarrow> database
     \<Rightarrow> unit result \<times> database \<times> event list" where
  "prisma_transaction callback db =
     (case callback db of
        (Inl err, tx', evs) \<Rightarrow> (Inl err, db, Transaction_begin # evs @ [Transaction_rollback])
      | (Inr v, tx', evs) \<Rightarrow> (Inr v, tx', Transaction_begin # evs @ [Transaction_commit]))"

text \<open>The whole function: the transaction inside \<open>try\<close>, and the \<open>catch\<close> block.\<close>

definition addTeamEmailVerification ::
  "env \<Rightarrow> AddTeamEmailVerificationOptions \<Rightarrow> database \<Rightarrow> unit result \<times> database \<times> event list" where
  "addTeamEmailVerification e opts db =
     (case prisma_transaction (transaction_callback e opts) db of
        (Inl err, db', evs) \<Rightarrow> (Inl (catch_handler err), db', evs @ [Console_error err])
      | (Inr v, db', evs) \<Rightarrow> (Inr v, db', evs))"

text \<open>Readings of an event list: the messages handed to the mailer, the rows inserted.\<close>

fun sent_mails :: "event list \<Rightarrow> mail list" where
  "sent_mails [] = []"
| "sent_mails (Mailer_sendMail m # evs) = m # sent_mails evs"
| "sent_mails (_ # evs) = sent_mails evs"

fun created_rows :: "event list \<Rightarrow> TeamEmailVerification list" where
  "created_rows [] = []"
| "created_rows (TeamEmailVerification_create r # evs) = r # created_rows evs"
| "created_rows (_ # evs) = created_rows evs"




section \<open>The teams data table\<close>

text \<open>
  The URL search params are a list of name and value pairs.
  \<open>Object.fromEntries\<close> assigns them to an object in order, so a later pair of the same
  name overwrites an earlier one; \<open>searchParams ?? []\<close> reads a missing list as empty.
\<close>

type_synonym URLSearchParams = "(string \<times> string) list"

definition Object_fromEntries :: "(string \<times> string) list \<Rightarrow> (string \<rightharpoonup> string)" where
  "Object_fromEntries entries = foldl (\<lambda>obj (k, v). obj(k \<mapsto> v)) Map.empty entries"

record ParsedSearchParams =
  parsed_query :: "string option"
  parsed_page :: "int option"
  parsed_perPage :: "int option"

text \<open>An optional property of an object literal: \<open>undefined\<close> when there is no value.\<close>

definition optional :: "('a \<Rightarrow> jsval) \<Rightarrow> 'a option \<Rightarrow> jsval" where
  "optional f v = (case v of None \<Rightarrow> JUndefined | Some x \<Rightarrow> f x)"

text \<open>
  The input that a render of \<open>TeamsDataTable\<close> gives to \<open>trpc.team.findTeams.useQuery\<close>,
  as the object literal of the source. \<open>ZBaseTableSearchParamsSchema.parse\<close> is the
  parameter \<open>parse\<close>; when it throws, the render throws before any query is made.
\<close>

definition findTeams_input ::
  "((string \<rightharpoonup> string) \<Rightarrow> ParsedSearchParams result) \<Rightarrow> URLSearchParams option
     \<Rightarrow> (string \<times> jsval) list result" where
  "findTeams_input parse searchParams =
     (case parse (Object_fromEntries (case searchParams of None \<Rightarrow> [] | Some sp \<Rightarrow> sp)) of
        Inl err \<Rightarrow> Inl err
      | Inr parsedSearchParams \<Rightarrow>
          Inr [(''term'', optional JStr (parsed_query parsedSearchParams)),
               (''page'', optional JNum (parsed_page parsedSearchParams)),
               (''perPage'', optional JNum (parsed_perPage parsedSearchParams))])"

text \<open>
  The handler given to the table as \<open>onPaginationChange\<close>; \<open>updateSearchParams\<close> is what
  the hook \<open>useUpdateSearchParams\<close> returned.
\<close>

definition onPaginationChange :: "((string \<times> jsval) list \<Rightarrow> 'a) \<Rightarrow> int \<Rightarrow> int \<Rightarrow> 'a" where
  "onPaginationChange updateSearchParams page perPage =
     updateSearchParams [(''page'', JNum page), (''perPage'', JNum perPage)]"

section \<open>The teams dashboard layout\<close>

record session =
  session_user_id :: int

record user =
  user_id :: int
  user_email :: string

text \<open>
  What the layout reads: the session of the request, and the outcomes of the two calls it
  starts together, \<open>getRequiredServerComponentSession()\<close> and \<open>getTeams\<close>.
\<close>

record layout_env =
  getServerSession :: "session option"
  getRequiredServerComponentSession :: "user result"
  getTeams :: "int \<Rightarrow> Team list result"

datatype layout_event =
    Call_getServerSession
  | Call_redirect string
  | Call_getRequiredServerComponentSession
  | Call_getTeams int

text \<open>
  How a request ends: \<open>redirect\<close> never returns, a rejected call rejects the layout, and
  otherwise the page is rendered with the session, the user and the teams.
\<close>

datatype layout_result =
    Redirected string
  | Rejected error
  | Rendered session user "Team list"

definition AuthenticatedTeamsDashboardLayout :: "layout_env \<Rightarrow> layout_result \<times> layout_event list" where
  "AuthenticatedTeamsDashboardLayout env =
     (case getServerSession env of
        None \<Rightarrow> (Redirected ''/signin'', [Call_getServerSession, Call_redirect ''/signin''])
      | Some s \<Rightarrow>
          (let calls = [Call_getServerSession, Call_getRequiredServerComponentSession,
                        Call_getTeams (session_user_id s)] in
           case getRequiredServerComponentSession env of
             Inl err \<Rightarrow> (Rejected err, calls)
           | Inr u \<Rightarrow>
               (case getTeams env (session_user_id s) of
                  Inl err \<Rightarrow> (Rejected err, calls)
                | Inr ts \<Rightarrow> (Rendered s u ts, calls))))"

fun getTeams_calls :: "layout_event list \<Rightarrow> int list" where
  "getTeams_calls [] = []"
| "getTeams_calls (Call_getTeams uid # evs) = uid # getTeams_calls evs"
| "getTeams_calls (_ # evs) = getTeams_calls evs"

section \<open>A sample installation\<close>

text \<open>
  A small database, environment and call on which the theorems below are instantiated:
  user 7 administers team 1, user 8 is a plain member of it, and team 2 owns an address.
\<close>

definition sample_env :: env where
  "sample_env =
     \<lparr> MANAGE_TEAM = [''ADMIN'', ''MANAGER''],
       WEBAPP_BASE_URL = ''https://app.example.com'',
       FROM_NAME = ''Documenso'',
       FROM_ADDRESS = ''noreply@example.com'',
       NEXT_PUBLIC_WEBAPP_URL = None,
       DateTime_now = 1000,
       Date_now = 1001,
       random_bytes = (\<lambda>i. i),
       render = (\<lambda>t plainText. (if plainText then ''text '' else ''html '') @ template_token t),
       create_rejects = None,
       sendMail_rejects = None \<rparr>"

definition sample_db :: database where
  "sample_db =
     \<lparr> teams = [\<lparr>team_id = 1, team_name = ''Acme'', team_url = ''acme''\<rparr>,
                \<lparr>team_id = 2, team_name = ''Beta'', team_url = ''beta''\<rparr>],
       teamMembers = [\<lparr>member_teamId = 1, member_userId = 7, member_role = ''ADMIN''\<rparr>,
                      \<lparr>member_teamId = 1, member_userId = 8, member_role = ''MEMBER''\<rparr>,
                      \<lparr>member_teamId = 2, member_userId = 9, member_role = ''MANAGER''\<rparr>],
       teamEmails = [\<lparr>teamEmail_teamId = 2, teamEmail_email = ''hello@beta.test'',
                      teamEmail_name = ''Beta''\<rparr>],
       teamEmailVerifications = [] \<rparr>"

definition sample_opts :: AddTeamEmailVerificationOptions where
  "sample_opts = \<lparr> userId = 7, teamId = 1, data_email = ''team@acme.test'', data_name = ''Acme'' \<rparr>"

text \<open>
  A parser for the sample: it takes \<open>query\<close> as it is and knows page 2 and page size 20.
\<close>

definition sample_parse :: "(string \<rightharpoonup> string) \<Rightarrow> ParsedSearchParams result" where
  "sample_parse obj =
     Inr \<lparr> parsed_query = obj ''query'',
           parsed_page = (if obj ''page'' = Some ''2'' then Some 2 else None),
           parsed_perPage = (if obj ''perPage'' = Some ''20'' then Some 20 else None) \<rparr>"

text \<open>Two requests to the layout: one without a session, one of user 7.\<close>

definition signed_out :: layout_env where
  "signed_out =
     \<lparr> getServerSession = None,
       getRequiredServerComponentSession = Inl (OtherError ''no session''),
       getTeams = (\<lambda>uid. Inr []) \<rparr>"

definition signed_in :: layout_env where
  "signed_in =
     \<lparr> getServerSession = Some \<lparr>session_user_id = 7\<rparr>,
       getRequiredServerComponentSession = Inr \<lparr>user_id = 7, user_email = ''ada@acme.test''\<rparr>,
       getTeams = (\<lambda>uid. Inr (if uid = 7 then [\<lparr>team_id = 1, team_name = ''Acme'',
                                                   team_url = ''acme''\<rparr>] else [])) \<rparr>"

section \<open>How a call runs\<close>

text \<open>The mail function hands over one message, whatever the transport answers.\<close>

lemma send_shape:
  "\<exists>m template. sendTeamEmailVerificationEmail e addr tok tn tu =
        (case sendMail_rejects e of None \<Rightarrow> Inr () | Some err \<Rightarrow> Inl err, [m])
      \<and> mail_to m = addr
      \<and> mail_html m = render e template False
      \<and> mail_text m = render e template True
      \<and> template_token template = tok"
proof -
  define template where "template =
    \<lparr> assetBaseUrl = or_default (NEXT_PUBLIC_WEBAPP_URL e) ''http://localhost:3000'',
      baseUrl = WEBAPP_BASE_URL e, teamName = tn, teamUrl = tu, template_token = tok \<rparr>"
  define m where "m =
    \<lparr> mail_to = addr, mail_from_name = FROM_NAME e, mail_from_address = FROM_ADDRESS e,
      mail_subject =
        ''A request to use your email has been initiated by '' @ tn @ '' on Documenso'',
      mail_html = render e template False, mail_text = render e template True \<rparr>"
  have "sendTeamEmailVerificationEmail e addr tok tn tu =
        (case sendMail_rejects e of None \<Rightarrow> Inr () | Some err \<Rightarrow> Inl err, [m])"
    by (simp add: sendTeamEmailVerificationEmail_def Let_def m_def template_def)
  moreover have "mail_to m = addr" "mail_html m = render e template False"
    "mail_text m = render e template True" "template_token template = tok"
    by (simp_all add: m_def template_def)
  ultimately show ?thesis by blast
qed

text \<open>The callback along each of its paths.\<close>

lemma callback_lookup_fails:
  assumes "team_findFirstOrThrow e tx (teamId opts) (userId opts) = Inl err"
  shows "transaction_callback e opts tx = (Inl err, tx, [Team_findFirstOrThrow (teamId opts) (userId opts)])"
  using assms by (simp add: transaction_callback_def)

lemma callback_has_email:
  assumes "team_findFirstOrThrow e tx (teamId opts) (userId opts) = Inr team"
    and "found_email team \<noteq> None \<or> found_emailVerification team \<noteq> None"
  shows "transaction_callback e opts tx =
     (Inl (AppError INVALID_REQUEST ''Team already has an email or existing email verification.''),
      tx, [Team_findFirstOrThrow (teamId opts) (userId opts)])"
  using assms by (simp add: transaction_callback_def)

lemma callback_email_taken:
  assumes "team_findFirstOrThrow e tx (teamId opts) (userId opts) = Inr team"
    and "found_email team = None" "found_emailVerification team = None"
    and "teamEmail_findFirst tx (data_email opts) = Some x"
  shows "transaction_callback e opts tx =
     (Inl (AppError ALREADY_EXISTS ''Email already taken by another team.''),
      tx, [Team_findFirstOrThrow (teamId opts) (userId opts), TeamEmail_findFirst (data_email opts)])"
  using assms by (simp add: transaction_callback_def)

lemma callback_create_rejected:
  assumes "team_findFirstOrThrow e tx (teamId opts) (userId opts) = Inr team"
    and "found_email team = None" "found_emailVerification team = None"
    and "teamEmail_findFirst tx (data_email opts) = None"
    and "create_rejects e = Some err"
  shows "transaction_callback e opts tx =
     (Inl err, tx,
      [Team_findFirstOrThrow (teamId opts) (userId opts), TeamEmail_findFirst (data_email opts),
       GenerateToken (generateTeamEmailVerificationToken e),
       TeamEmailVerification_create (create_data opts (generateTeamEmailVerificationToken e))])"
  using assms by (simp add: transaction_callback_def teamEmailVerification_create_def Let_def)

lemma callback_created:
  assumes "team_findFirstOrThrow e tx (teamId opts) (userId opts) = Inr team"
    and "found_email team = None" "found_emailVerification team = None"
    and "teamEmail_findFirst tx (data_email opts) = None"
    and "create_rejects e = None"
    and "sendTeamEmailVerificationEmail e (data_email opts)
           (token (generateTeamEmailVerificationToken e))
           (team_name (found_team team)) (team_url (found_team team)) = (r, msgs)"
  shows "transaction_callback e opts tx =
     (r,
      tx\<lparr>teamEmailVerifications := teamEmailVerifications tx
            @ [create_data opts (generateTeamEmailVerificationToken e)]\<rparr>,
      [Team_findFirstOrThrow (teamId opts) (userId opts), TeamEmail_findFirst (data_email opts),
       GenerateToken (generateTeamEmailVerificationToken e),
       TeamEmailVerification_create (create_data opts (generateTeamEmailVerificationToken e))]
      @ map Mailer_sendMail msgs)"
  using assms by (simp add: transaction_callback_def teamEmailVerification_create_def Let_def)

text \<open>Every run of the callback takes one of these five paths.\<close>

lemma callback_cases:
  obtains
    (lookup_fails) err where "team_findFirstOrThrow e tx (teamId opts) (userId opts) = Inl err"
  | (has_email) team where "team_findFirstOrThrow e tx (teamId opts) (userId opts) = Inr team"
      "found_email team \<noteq> None \<or> found_emailVerification team \<noteq> None"
  | (email_taken) team x where "team_findFirstOrThrow e tx (teamId opts) (userId opts) = Inr team"
      "found_email team = None" "found_emailVerification team = None"
      "teamEmail_findFirst tx (data_email opts) = Some x"
  | (create_rejected) team err where "team_findFirstOrThrow e tx (teamId opts) (userId opts) = Inr team"
      "found_email team = None" "found_emailVerification team = None"
      "teamEmail_findFirst tx (data_email opts) = None" "create_rejects e = Some err"
  | (created) team m template where
      "team_findFirstOrThrow e tx (teamId opts) (userId opts) = Inr team"
      "found_email team = None" "found_emailVerification team = None"
      "teamEmail_findFirst tx (data_email opts) = None" "create_rejects e = None"
      "sendTeamEmailVerificationEmail e (data_email opts)
           (token (generateTeamEmailVerificationToken e))
           (team_name (found_team team)) (team_url (found_team team))
        = (case sendMail_rejects e of None \<Rightarrow> Inr () | Some err \<Rightarrow> Inl err, [m])"
      "mail_to m = data_email opts"
      "mail_html m = render e template False"
      "mail_text m = render e template True"
      "template_token template = token (generateTeamEmailVerificationToken e)"
proof (cases "team_findFirstOrThrow e tx (teamId opts) (userId opts)")
  case (Inl err)
  then show ?thesis by (rule lookup_fails)
next
  case (Inr team)
  show ?thesis
  proof (cases "found_email team \<noteq> None \<or> found_emailVerification team \<noteq> None")
    case True
    with Inr show ?thesis by (rule has_email)
  next
    case False
    then have ne: "found_email team = None" "found_emailVerification team = None" by auto
    show ?thesis
    proof (cases "teamEmail_findFirst tx (data_email opts)")
      case (Some x)
      with Inr ne show ?thesis by (rule email_taken)
    next
      case None
      show ?thesis
      proof (cases "create_rejects e")
        case (Some err)
        with Inr ne None show ?thesis by (rule create_rejected)
      next
        case cn: None
        obtain m template where "sendTeamEmailVerificationEmail e (data_email opts)
           (token (generateTeamEmailVerificationToken e))
           (team_name (found_team team)) (team_url (found_team team))
        = (case sendMail_rejects e of None \<Rightarrow> Inr () | Some err \<Rightarrow> Inl err, [m])"
          "mail_to m = data_email opts"
          "mail_html m = render e template False"
          "mail_text m = render e template True"
          "template_token template = token (generateTeamEmailVerificationToken e)"
          using send_shape by blast
        with Inr ne None cn show ?thesis by (rule created)
      qed
    qed
  qed
qed

text \<open>The whole function, from what the callback did.\<close>

lemma add_when_callback_throws:
  assumes "transaction_callback e opts db = (Inl err, tx', evs)"
  shows "addTeamEmailVerification e opts db =
     (Inl (catch_handler err), db,
      Transaction_begin # evs @ [Transaction_rollback, Console_error err])"
  using assms by (simp add: addTeamEmailVerification_def prisma_transaction_def)

lemma add_when_callback_returns:
  assumes "transaction_callback e opts db = (Inr v, tx', evs)"
  shows "addTeamEmailVerification e opts db =
     (Inr v, tx', Transaction_begin # evs @ [Transaction_commit])"
  using assms by (simp add: addTeamEmailVerification_def prisma_transaction_def)

text \<open>Unfolding the sample call: the definitions a concrete run evaluates.\<close>

lemmas sample_defs = sample_env_def sample_db_def sample_opts_def
lemmas query_defs = transaction_callback_def team_findFirstOrThrow_def members_some_def
  teamEmail_findFirst_def teamEmailVerification_create_def sendTeamEmailVerificationEmail_def
  create_data_def generateTeamEmailVerificationToken_def or_default_def

section \<open>The catch block\<close>








section \<open>Permission and uniqueness\<close>

text \<open>
  The team query in terms of the tables: it fails exactly when no team of that id has a
  member row of the user with a \<open>MANAGE_TEAM\<close> role, and the relations it includes are
  present exactly when the tables hold a row for that team.
\<close>

lemma find_Some_holds: "find P xs = Some x \<Longrightarrow> x \<in> set xs \<and> P x"
  by (induction xs) (auto split: if_splits)

lemma lookup_unauthorized:
  assumes "\<not> (\<exists>t\<in>set (teams db). team_id t = tid
       \<and> (\<exists>m\<in>set (teamMembers db). member_teamId m = team_id t \<and> member_userId m = uid
              \<and> member_role m \<in> set (MANAGE_TEAM e)))"
  shows "team_findFirstOrThrow e db tid uid = Inl NotFoundError"
proof -
  have "find (\<lambda>t. team_id t = tid \<and> members_some e db uid t) (teams db) = None"
    using assms unfolding find_None_iff members_some_def list_ex_iff by blast
  then show ?thesis by (simp add: team_findFirstOrThrow_def)
qed

lemma lookup_authorized:
  assumes "\<exists>t\<in>set (teams db). team_id t = tid
       \<and> (\<exists>m\<in>set (teamMembers db). member_teamId m = team_id t \<and> member_userId m = uid
              \<and> member_role m \<in> set (MANAGE_TEAM e))"
  shows "\<exists>team. team_findFirstOrThrow e db tid uid = Inr team
     \<and> team_id (found_team team) = tid
     \<and> (found_email team = None \<longleftrightarrow> \<not> (\<exists>x\<in>set (teamEmails db). teamEmail_teamId x = tid))
     \<and> (found_emailVerification team = None
          \<longleftrightarrow> \<not> (\<exists>x\<in>set (teamEmailVerifications db). verification_teamId x = tid))"
proof -
  have "find (\<lambda>t. team_id t = tid \<and> members_some e db uid t) (teams db) \<noteq> None"
    using assms unfolding find_None_iff members_some_def list_ex_iff by blast
  then obtain t where found: "find (\<lambda>t. team_id t = tid \<and> members_some e db uid t) (teams db) = Some t"
    by blast
  then have "team_id t = tid" using find_Some_holds by fastforce
  with found show ?thesis
    by (auto simp add: team_findFirstOrThrow_def find_None_iff)
qed

text \<open>The two errors the callback raises itself pass through the catch block.\<close>

lemma catch_handler_AppError [simp]: "catch_handler (AppError c msg) = AppError c msg"
  by (simp add: catch_handler_def)

lemma catch_handler_NotFoundError [simp]: "catch_handler NotFoundError = NotFoundError"
  by (simp add: catch_handler_def NotFoundError_def meta_target_def)

text \<open>
  C2. When the caller is not a member of the team with a role of the \<open>MANAGE_TEAM\<close>
  permission set (also when there is no such team), the call throws the error of the
  failed team lookup, the database is unchanged, no record creation is attempted and no
  message is handed to the mailer.
\<close>

theorem unauthorized_call_throws_and_does_nothing:
  assumes "\<forall>t\<in>set (teams db). team_id t = teamId opts \<longrightarrow>
             (\<forall>m\<in>set (teamMembers db).
                member_teamId m = team_id t \<and> member_userId m = userId opts
                  \<longrightarrow> member_role m \<notin> set (MANAGE_TEAM e))"
  shows "\<exists>evs. addTeamEmailVerification e opts db = (Inl NotFoundError, db, evs)
           \<and> created_rows evs = [] \<and> sent_mails evs = []"
proof -
  have "team_findFirstOrThrow e db (teamId opts) (userId opts) = Inl NotFoundError"
    using assms by (intro lookup_unauthorized) blast
  from add_when_callback_throws [OF callback_lookup_fails [OF this]] show ?thesis
    by simp
qed

theorem unauthorized_call_throws_and_does_nothing_witness:
  "\<exists>evs. addTeamEmailVerification sample_env (sample_opts\<lparr>userId := 8\<rparr>) sample_db
               = (Inl NotFoundError, sample_db, evs)
           \<and> created_rows evs = [] \<and> sent_mails evs = []"
proof -
  have "\<forall>t\<in>set (teams sample_db). team_id t = teamId (sample_opts\<lparr>userId := 8\<rparr>) \<longrightarrow>
             (\<forall>m\<in>set (teamMembers sample_db).
                member_teamId m = team_id t \<and> member_userId m = userId (sample_opts\<lparr>userId := 8\<rparr>)
                  \<longrightarrow> member_role m \<notin> set (MANAGE_TEAM sample_env))"
    by (simp add: sample_defs)
  from unauthorized_call_throws_and_does_nothing [OF this] show ?thesis .
qed

text \<open>
  C3. For an authorized caller: when the team already has an email or a pending email
  verification, the call throws the \<open>AppError\<close> with code \<open>INVALID_REQUEST\<close>;
  otherwise, when a team email with the requested address exists, it throws the
  \<open>AppError\<close> with code \<open>ALREADY_EXISTS\<close> and message \<open>Email already taken by another
  team.\<close> In both cases the database is unchanged, no verification record is created and
  no mail is sent.
\<close>

theorem authorized_call_rejects_second_email_and_taken_address:
  assumes "\<exists>t\<in>set (teams db). team_id t = teamId opts
       \<and> (\<exists>m\<in>set (teamMembers db). member_teamId m = team_id t \<and> member_userId m = userId opts
              \<and> member_role m \<in> set (MANAGE_TEAM e))"
  shows "((\<exists>x\<in>set (teamEmails db). teamEmail_teamId x = teamId opts)
            \<or> (\<exists>x\<in>set (teamEmailVerifications db). verification_teamId x = teamId opts)
          \<longrightarrow> (\<exists>evs. addTeamEmailVerification e opts db
                  = (Inl (AppError INVALID_REQUEST
                            ''Team already has an email or existing email verification.''), db, evs)
                \<and> created_rows evs = [] \<and> sent_mails evs = []))
       \<and> (\<not> ((\<exists>x\<in>set (teamEmails db). teamEmail_teamId x = teamId opts)
               \<or> (\<exists>x\<in>set (teamEmailVerifications db). verification_teamId x = teamId opts))
            \<and> (\<exists>x\<in>set (teamEmails db). teamEmail_email x = data_email opts)
          \<longrightarrow> (\<exists>evs. addTeamEmailVerification e opts db
                  = (Inl (AppError ALREADY_EXISTS ''Email already taken by another team.''), db, evs)
                \<and> created_rows evs = [] \<and> sent_mails evs = []))"
proof -
  from lookup_authorized [OF assms] obtain team where
    found: "team_findFirstOrThrow e db (teamId opts) (userId opts) = Inr team"
    and "team_id (found_team team) = teamId opts"
    and email: "found_email team = None
        \<longleftrightarrow> \<not> (\<exists>x\<in>set (teamEmails db). teamEmail_teamId x = teamId opts)"
    and verification: "found_emailVerification team = None
        \<longleftrightarrow> \<not> (\<exists>x\<in>set (teamEmailVerifications db). verification_teamId x = teamId opts)"
    by (elim exE conjE) (rule that)
  have first: ?thesis if "(\<exists>x\<in>set (teamEmails db). teamEmail_teamId x = teamId opts)
            \<or> (\<exists>x\<in>set (teamEmailVerifications db). verification_teamId x = teamId opts)"
  proof -
    from that email verification
    have "found_email team \<noteq> None \<or> found_emailVerification team \<noteq> None" by blast
    from add_when_callback_throws [OF callback_has_email [OF found this]] that show ?thesis
      by simp
  qed
  have second: ?thesis if none: "\<not> ((\<exists>x\<in>set (teamEmails db). teamEmail_teamId x = teamId opts)
            \<or> (\<exists>x\<in>set (teamEmailVerifications db). verification_teamId x = teamId opts))"
  proof (cases "\<exists>x\<in>set (teamEmails db). teamEmail_email x = data_email opts")
    case True
    then have "teamEmail_findFirst db (data_email opts) \<noteq> None"
      unfolding teamEmail_findFirst_def find_None_iff by blast
    then obtain x where taken: "teamEmail_findFirst db (data_email opts) = Some x" by blast
    from none email verification
    have "found_email team = None" "found_emailVerification team = None" by blast+
    from add_when_callback_throws [OF callback_email_taken [OF found this taken]] none
    show ?thesis by simp
  next
    case False
    with none show ?thesis by blast
  qed
  from first second show ?thesis by blast
qed

theorem authorized_call_rejects_second_email_and_taken_address_witness:
  "(\<exists>evs. addTeamEmailVerification sample_env
             (sample_opts\<lparr>userId := 9, teamId := 2\<rparr>) sample_db
           = (Inl (AppError INVALID_REQUEST
                     ''Team already has an email or existing email verification.''), sample_db, evs)
         \<and> created_rows evs = [] \<and> sent_mails evs = [])
   \<and> (\<exists>evs. addTeamEmailVerification sample_env
             (sample_opts\<lparr>data_email := ''hello@beta.test''\<rparr>) sample_db
           = (Inl (AppError ALREADY_EXISTS ''Email already taken by another team.''), sample_db, evs)
         \<and> created_rows evs = [] \<and> sent_mails evs = [])"
proof -
  let ?o2 = "sample_opts\<lparr>userId := 9, teamId := 2\<rparr>"
  let ?o1 = "sample_opts\<lparr>data_email := ''hello@beta.test''\<rparr>"
  have auth2: "\<exists>t\<in>set (teams sample_db). team_id t = teamId ?o2
       \<and> (\<exists>m\<in>set (teamMembers sample_db). member_teamId m = team_id t
              \<and> member_userId m = userId ?o2 \<and> member_role m \<in> set (MANAGE_TEAM sample_env))"
    by (simp add: sample_defs)
  have has2: "(\<exists>x\<in>set (teamEmails sample_db). teamEmail_teamId x = teamId ?o2)
            \<or> (\<exists>x\<in>set (teamEmailVerifications sample_db). verification_teamId x = teamId ?o2)"
    by (simp add: sample_defs)
  have auth1: "\<exists>t\<in>set (teams sample_db). team_id t = teamId ?o1
       \<and> (\<exists>m\<in>set (teamMembers sample_db). member_teamId m = team_id t
              \<and> member_userId m = userId ?o1 \<and> member_role m \<in> set (MANAGE_TEAM sample_env))"
    by (simp add: sample_defs)
  have has1: "\<not> ((\<exists>x\<in>set (teamEmails sample_db). teamEmail_teamId x = teamId ?o1)
            \<or> (\<exists>x\<in>set (teamEmailVerifications sample_db). verification_teamId x = teamId ?o1))
          \<and> (\<exists>x\<in>set (teamEmails sample_db). teamEmail_email x = data_email ?o1)"
    by (simp add: sample_defs)
  from authorized_call_rejects_second_email_and_taken_address [OF auth2] has2
       authorized_call_rejects_second_email_and_taken_address [OF auth1] has1
  show ?thesis by blast
qed

section \<open>Rollback\<close>

text \<open>
  C4. Whenever a step inside the transaction throws, the call ends with an error and the
  database is what it was before the call: nothing the callback wrote is persisted. The
  instance that follows is the mail send failing after the record has been created in the
  transaction's view.
\<close>

theorem throwing_transaction_leaves_database_unchanged:
  assumes "fst (transaction_callback e opts db) = Inl err"
  shows "\<exists>err' evs. addTeamEmailVerification e opts db = (Inl err', db, evs)"
proof -
  obtain tx' evs where "transaction_callback e opts db = (Inl err, tx', evs)"
    using assms by (cases "transaction_callback e opts db") auto
  from add_when_callback_throws [OF this] show ?thesis by blast
qed

theorem throwing_transaction_leaves_database_unchanged_witness:
  "fst (transaction_callback (sample_env\<lparr>sendMail_rejects := Some (OtherError ''SMTP'')\<rparr>)
          sample_opts sample_db) = Inl (OtherError ''SMTP'')
   \<and> map verification_email (teamEmailVerifications (fst (snd (transaction_callback
          (sample_env\<lparr>sendMail_rejects := Some (OtherError ''SMTP'')\<rparr>) sample_opts sample_db))))
       = [''team@acme.test'']
   \<and> teamEmailVerifications sample_db = []
   \<and> (\<exists>err' evs. addTeamEmailVerification
          (sample_env\<lparr>sendMail_rejects := Some (OtherError ''SMTP'')\<rparr>) sample_opts sample_db
        = (Inl err', sample_db, evs))"
proof -
  let ?e = "sample_env\<lparr>sendMail_rejects := Some (OtherError ''SMTP'')\<rparr>"
  have thrown: "fst (transaction_callback ?e sample_opts sample_db) = Inl (OtherError ''SMTP'')"
    by (simp add: query_defs sample_defs Let_def)
  have view: "map verification_email (teamEmailVerifications (fst (snd (transaction_callback
          ?e sample_opts sample_db)))) = [''team@acme.test'']"
    by (simp add: query_defs sample_defs Let_def)
  have "teamEmailVerifications sample_db = []"
    by (simp add: sample_db_def)
  with thrown view throwing_transaction_leaves_database_unchanged [OF thrown] show ?thesis
    by blast
qed

section \<open>The token\<close>

text \<open>An id of \<open>n\<close> characters, all of the URL alphabet.\<close>

lemma urlAlphabet_length: "length urlAlphabet = 64"
  by (simp add: urlAlphabet_def)

lemma nanoid_length: "length (nanoid e n) = n"
  by (simp add: nanoid_def)

lemma nanoid_alphabet: "set (nanoid e n) \<subseteq> set urlAlphabet"
  by (auto simp add: nanoid_def urlAlphabet_length)

text \<open>What a call that returns has done.\<close>

lemma returning_call:
  assumes "fst (addTeamEmailVerification e opts db) = Inr v"
  obtains m template where
    "addTeamEmailVerification e opts db =
       (Inr (),
        db\<lparr>teamEmailVerifications := teamEmailVerifications db
              @ [create_data opts (generateTeamEmailVerificationToken e)]\<rparr>,
        [Transaction_begin,
         Team_findFirstOrThrow (teamId opts) (userId opts),
         TeamEmail_findFirst (data_email opts),
         GenerateToken (generateTeamEmailVerificationToken e),
         TeamEmailVerification_create (create_data opts (generateTeamEmailVerificationToken e)),
         Mailer_sendMail m,
         Transaction_commit])"
    "mail_to m = data_email opts"
    "mail_html m = render e template False"
    "mail_text m = render e template True"
    "template_token template = token (generateTeamEmailVerificationToken e)"
proof (cases rule: callback_cases [of e db opts])
  case (lookup_fails err)
  from add_when_callback_throws [OF callback_lookup_fails [OF lookup_fails]] assms
  show ?thesis by simp
next
  case (has_email team)
  from add_when_callback_throws [OF callback_has_email [OF has_email]] assms
  show ?thesis by simp
next
  case (email_taken team x)
  from add_when_callback_throws [OF callback_email_taken [OF email_taken]] assms
  show ?thesis by simp
next
  case (create_rejected team err)
  from add_when_callback_throws [OF callback_create_rejected [OF create_rejected]] assms
  show ?thesis by simp
next
  case (created team m template)
  show ?thesis
  proof (cases "sendMail_rejects e")
    case None
    with created(6) have "sendTeamEmailVerificationEmail e (data_email opts)
           (token (generateTeamEmailVerificationToken e))
           (team_name (found_team team)) (team_url (found_team team)) = (Inr (), [m])"
      by simp
    from add_when_callback_returns [OF callback_created [OF created(1-5) this]] created(7-10)
    show ?thesis by (intro that [of m template]) simp_all
  next
    case (Some err)
    with created(6) have "sendTeamEmailVerificationEmail e (data_email opts)
           (token (generateTeamEmailVerificationToken e))
           (team_name (found_team team)) (team_url (found_team team)) = (Inl err, [m])"
      by simp
    from add_when_callback_throws [OF callback_created [OF created(1-5) this]] assms
    show ?thesis by simp
  qed
qed

text \<open>
  C5, as the source has it. The token is time-limited and is the one sent to the claimed
  address. The record that \<open>generateTeamEmailVerificationToken\<close> returns expires exactly
  ten minutes after the reading of \<open>DateTime.now()\<close> taken when the token is made. Its
  \<open>createdAt\<close> is a second reading of the clock, \<open>new Date()\<close>, so \<open>expiresAt\<close> is ten
  minutes after \<open>createdAt\<close> less the time between the two readings, and exactly ten
  minutes after it when the readings are equal. Its token is \<open>nanoid(32)\<close>: 32
  characters of the URL alphabet. Every call of \<open>addTeamEmailVerification\<close> that returns
  has stored a verification record with exactly this token, expiry and creation time for
  the claimed address, and has handed the mailer one message, addressed to the claimed
  address and rendered from a template that carries the same token.
\<close>

theorem token_expires_after_ten_minutes_and_is_the_one_sent:
  "expiresAt (generateTeamEmailVerificationToken e) = DateTime_now e + 10 * 60 * 1000
   \<and> createdAt (generateTeamEmailVerificationToken e) = Date_now e
   \<and> expiresAt (generateTeamEmailVerificationToken e)
       = createdAt (generateTeamEmailVerificationToken e) + 10 * 60 * 1000
           - (Date_now e - DateTime_now e)
   \<and> (Date_now e = DateTime_now e \<longrightarrow>
         expiresAt (generateTeamEmailVerificationToken e)
           = createdAt (generateTeamEmailVerificationToken e) + 10 * 60 * 1000)
   \<and> token (generateTeamEmailVerificationToken e) = nanoid e 32
   \<and> length (token (generateTeamEmailVerificationToken e)) = 32
   \<and> set (token (generateTeamEmailVerificationToken e)) \<subseteq> set urlAlphabet
   \<and> (fst (addTeamEmailVerification e opts db) = Inr () \<longrightarrow>
        (\<exists>row m template.
            teamEmailVerifications (fst (snd (addTeamEmailVerification e opts db)))
              = teamEmailVerifications db @ [row]
          \<and> verification_token row = token (generateTeamEmailVerificationToken e)
          \<and> verification_expiresAt row = expiresAt (generateTeamEmailVerificationToken e)
          \<and> verification_createdAt row = createdAt (generateTeamEmailVerificationToken e)
          \<and> verification_email row = data_email opts
          \<and> verification_teamId row = teamId opts
          \<and> sent_mails (snd (snd (addTeamEmailVerification e opts db))) = [m]
          \<and> mail_to m = data_email opts
          \<and> mail_html m = render e template False
          \<and> mail_text m = render e template True
          \<and> template_token template = token (generateTeamEmailVerificationToken e)))"
proof -
  have minted:
    "expiresAt (generateTeamEmailVerificationToken e) = DateTime_now e + 10 * 60 * 1000"
    "createdAt (generateTeamEmailVerificationToken e) = Date_now e"
    "token (generateTeamEmailVerificationToken e) = nanoid e 32"
    "expiresAt (generateTeamEmailVerificationToken e)
       = createdAt (generateTeamEmailVerificationToken e) + 10 * 60 * 1000
           - (Date_now e - DateTime_now e)"
    "Date_now e = DateTime_now e \<longrightarrow>
         expiresAt (generateTeamEmailVerificationToken e)
           = createdAt (generateTeamEmailVerificationToken e) + 10 * 60 * 1000"
    by (simp_all add: generateTeamEmailVerificationToken_def)
  have shape: "length (token (generateTeamEmailVerificationToken e)) = 32"
    "set (token (generateTeamEmailVerificationToken e)) \<subseteq> set urlAlphabet"
    using nanoid_length nanoid_alphabet by (simp_all add: minted(3))
  have stored_and_sent: "\<exists>row m template.
            teamEmailVerifications (fst (snd (addTeamEmailVerification e opts db)))
              = teamEmailVerifications db @ [row]
          \<and> verification_token row = token (generateTeamEmailVerificationToken e)
          \<and> verification_expiresAt row = expiresAt (generateTeamEmailVerificationToken e)
          \<and> verification_createdAt row = createdAt (generateTeamEmailVerificationToken e)
          \<and> verification_email row = data_email opts
          \<and> verification_teamId row = teamId opts
          \<and> sent_mails (snd (snd (addTeamEmailVerification e opts db))) = [m]
          \<and> mail_to m = data_email opts
          \<and> mail_html m = render e template False
          \<and> mail_text m = render e template True
          \<and> template_token template = token (generateTeamEmailVerificationToken e)"
    if "fst (addTeamEmailVerification e opts db) = Inr ()"
  proof -
    from that obtain m template where run: "addTeamEmailVerification e opts db =
       (Inr (),
        db\<lparr>teamEmailVerifications := teamEmailVerifications db
              @ [create_data opts (generateTeamEmailVerificationToken e)]\<rparr>,
        [Transaction_begin,
         Team_findFirstOrThrow (teamId opts) (userId opts),
         TeamEmail_findFirst (data_email opts),
         GenerateToken (generateTeamEmailVerificationToken e),
         TeamEmailVerification_create (create_data opts (generateTeamEmailVerificationToken e)),
         Mailer_sendMail m,
         Transaction_commit])"
      and mail: "mail_to m = data_email opts" "mail_html m = render e template False"
        "mail_text m = render e template True"
        "template_token template = token (generateTeamEmailVerificationToken e)"
      by (rule returning_call)
    show ?thesis
      apply (rule exI [of _ "create_data opts (generateTeamEmailVerificationToken e)"])
      apply (rule exI [of _ m], rule exI [of _ template])
      using mail by (simp add: run create_data_def)
  qed
  from minted shape stored_and_sent show ?thesis by blast
qed

theorem token_expires_after_ten_minutes_and_is_the_one_sent_witness:
  "fst (addTeamEmailVerification sample_env sample_opts sample_db) = Inr ()
   \<and> expiresAt (generateTeamEmailVerificationToken sample_env) = 601000
   \<and> createdAt (generateTeamEmailVerificationToken sample_env) = 1001
   \<and> expiresAt (generateTeamEmailVerificationToken (sample_env\<lparr>Date_now := 1000\<rparr>))
       = createdAt (generateTeamEmailVerificationToken (sample_env\<lparr>Date_now := 1000\<rparr>))
           + 10 * 60 * 1000
   \<and> (\<exists>row m template.
            teamEmailVerifications (fst (snd (addTeamEmailVerification sample_env sample_opts sample_db)))
              = teamEmailVerifications sample_db @ [row]
          \<and> verification_token row = token (generateTeamEmailVerificationToken sample_env)
          \<and> verification_expiresAt row = 601000
          \<and> verification_createdAt row = 1001
          \<and> verification_email row = data_email sample_opts
          \<and> verification_teamId row = teamId sample_opts
          \<and> sent_mails (snd (snd (addTeamEmailVerification sample_env sample_opts sample_db))) = [m]
          \<and> mail_to m = data_email sample_opts
          \<and> mail_html m = render sample_env template False
          \<and> mail_text m = render sample_env template True
          \<and> template_token template = token (generateTeamEmailVerificationToken sample_env))"
proof -
  let ?same = "sample_env\<lparr>Date_now := 1000\<rparr>"
  note at_sample =
    token_expires_after_ten_minutes_and_is_the_one_sent [of sample_env sample_opts sample_db]
  have ok: "fst (addTeamEmailVerification sample_env sample_opts sample_db) = Inr ()"
    by (simp add: addTeamEmailVerification_def prisma_transaction_def query_defs sample_defs Let_def)
  have expires: "expiresAt (generateTeamEmailVerificationToken sample_env) = 601000"
    using at_sample by (simp add: sample_env_def)
  have created: "createdAt (generateTeamEmailVerificationToken sample_env) = 1001"
    using at_sample by (simp add: sample_env_def)
  have "Date_now ?same = DateTime_now ?same"
    by (simp add: sample_env_def)
  with token_expires_after_ten_minutes_and_is_the_one_sent [of ?same sample_opts sample_db]
  have same: "expiresAt (generateTeamEmailVerificationToken ?same)
       = createdAt (generateTeamEmailVerificationToken ?same) + 10 * 60 * 1000"
    by blast
  from at_sample ok obtain row m template where stored:
    "teamEmailVerifications (fst (snd (addTeamEmailVerification sample_env sample_opts sample_db)))
       = teamEmailVerifications sample_db @ [row]"
    "verification_token row = token (generateTeamEmailVerificationToken sample_env)"
    "verification_expiresAt row = expiresAt (generateTeamEmailVerificationToken sample_env)"
    "verification_createdAt row = createdAt (generateTeamEmailVerificationToken sample_env)"
    "verification_email row = data_email sample_opts"
    "verification_teamId row = teamId sample_opts"
    "sent_mails (snd (snd (addTeamEmailVerification sample_env sample_opts sample_db))) = [m]"
    "mail_to m = data_email sample_opts"
    "mail_html m = render sample_env template False"
    "mail_text m = render sample_env template True"
    "template_token template = token (generateTeamEmailVerificationToken sample_env)"
    by blast
  from stored expires created have "\<exists>row m template.
            teamEmailVerifications (fst (snd (addTeamEmailVerification sample_env sample_opts sample_db)))
              = teamEmailVerifications sample_db @ [row]
          \<and> verification_token row = token (generateTeamEmailVerificationToken sample_env)
          \<and> verification_expiresAt row = 601000
          \<and> verification_createdAt row = 1001
          \<and> verification_email row = data_email sample_opts
          \<and> verification_teamId row = teamId sample_opts
          \<and> sent_mails (snd (snd (addTeamEmailVerification sample_env sample_opts sample_db))) = [m]
          \<and> mail_to m = data_email sample_opts
          \<and> mail_html m = render sample_env template False
          \<and> mail_text m = render sample_env template True
          \<and> template_token template = token (generateTeamEmailVerificationToken sample_env)"
    by (intro exI [of _ row] exI [of _ m] exI [of _ template]) simp
  with ok expires created same show ?thesis by blast
qed

text \<open>
  C5, as the claim states it, does not hold of the record's own creation time: when the
  clock moves on by a millisecond between the two readings, \<open>expiresAt\<close> is not ten
  minutes after \<open>createdAt\<close>.
\<close>

theorem expiry_ten_minutes_after_createdAt_counterexample:
  "expiresAt (generateTeamEmailVerificationToken sample_env)
     \<noteq> createdAt (generateTeamEmailVerificationToken sample_env) + 10 * 60 * 1000"
  by (simp add: generateTeamEmailVerificationToken_def sample_env_def)

section \<open>The shape of a call\<close>






section \<open>The confirmation mail\<close>

text \<open>
  C6. Every call of \<open>sendTeamEmailVerificationEmail\<close> hands exactly one message to the
  mailer. Its recipient is the given address, its sender the configured \<open>FROM_NAME\<close> and
  \<open>FROM_ADDRESS\<close>, its subject contains the team name, and its HTML and plain-text bodies
  are rendered from one and the same template, which carries the given token, team name
  and team url and the two base URLs.
\<close>

theorem sendTeamEmailVerificationEmail_sends_one_mail:
  "\<exists>m template.
      snd (sendTeamEmailVerificationEmail e addr tok tName tUrl) = [m]
    \<and> mail_to m = addr
    \<and> mail_from_name m = FROM_NAME e
    \<and> mail_from_address m = FROM_ADDRESS e
    \<and> (\<exists>before after. mail_subject m = before @ tName @ after)
    \<and> mail_html m = render e template False
    \<and> mail_text m = render e template True
    \<and> template_token template = tok
    \<and> teamName template = tName
    \<and> teamUrl template = tUrl
    \<and> baseUrl template = WEBAPP_BASE_URL e
    \<and> assetBaseUrl template = or_default (NEXT_PUBLIC_WEBAPP_URL e) ''http://localhost:3000''"
proof -
  define template where "template =
    \<lparr> assetBaseUrl = or_default (NEXT_PUBLIC_WEBAPP_URL e) ''http://localhost:3000'',
      baseUrl = WEBAPP_BASE_URL e, teamName = tName, teamUrl = tUrl, template_token = tok \<rparr>"
  define m where "m =
    \<lparr> mail_to = addr, mail_from_name = FROM_NAME e, mail_from_address = FROM_ADDRESS e,
      mail_subject =
        ''A request to use your email has been initiated by '' @ tName @ '' on Documenso'',
      mail_html = render e template False, mail_text = render e template True \<rparr>"
  have sent: "snd (sendTeamEmailVerificationEmail e addr tok tName tUrl) = [m]"
    by (simp add: sendTeamEmailVerificationEmail_def Let_def m_def template_def)
  have subject: "\<exists>before after. mail_subject m = before @ tName @ after"
    unfolding m_def by (simp del: append.simps) blast
  show ?thesis
    apply (rule exI[of _ m], rule exI[of _ template])
    using sent subject by (simp add: m_def template_def)
qed

section \<open>The query of the data table\<close>

text \<open>The object made from the search params holds, for each name, its last value.\<close>

lemma fromEntries_foldl:
  "foldl (\<lambda>obj (k, v). obj(k \<mapsto> v)) m entries = m ++ map_of (rev entries)"
proof (induction entries arbitrary: m)
  case Nil
  then show ?case by simp
next
  case (Cons kv entries)
  obtain k v where kv: "kv = (k, v)" by (cases kv)
  have "foldl (\<lambda>obj (k, v). obj(k \<mapsto> v)) m (kv # entries)
          = foldl (\<lambda>obj (k, v). obj(k \<mapsto> v)) (m(k \<mapsto> v)) entries"
    unfolding kv by simp
  also have "\<dots> = m(k \<mapsto> v) ++ map_of (rev entries)"
    by (rule Cons.IH)
  also have "\<dots> = m ++ map_of (rev (kv # entries))"
    unfolding kv by (simp add: map_of_append map_add_assoc [symmetric] map_add_upd_left)
  finally show ?case .
qed

lemma Object_fromEntries_last_wins: "Object_fromEntries entries = map_of (rev entries)"
  by (simp add: Object_fromEntries_def fromEntries_foldl)

text \<open>
  C7. A render of \<open>TeamsDataTable\<close> queries \<open>findTeams\<close> with exactly the search term,
  page and page size that \<open>ZBaseTableSearchParamsSchema\<close> parsed from the current URL
  search params (each name with its last value), and a pagination change calls the
  search-param updater with the new \<open>page\<close> and \<open>perPage\<close> and nothing else.
\<close>

theorem findTeams_is_queried_with_the_parsed_search_params:
  assumes "parse (map_of (rev (case searchParams of None \<Rightarrow> [] | Some sp \<Rightarrow> sp))) = Inr p"
  shows "findTeams_input parse searchParams =
           Inr [(''term'', case parsed_query p of None \<Rightarrow> JUndefined | Some q \<Rightarrow> JStr q),
                (''page'', case parsed_page p of None \<Rightarrow> JUndefined | Some n \<Rightarrow> JNum n),
                (''perPage'', case parsed_perPage p of None \<Rightarrow> JUndefined | Some n \<Rightarrow> JNum n)]
       \<and> onPaginationChange updateSearchParams page perPage =
           updateSearchParams [(''page'', JNum page), (''perPage'', JNum perPage)]"
  using assms
  by (simp add: findTeams_input_def Object_fromEntries_last_wins optional_def
        onPaginationChange_def)

theorem findTeams_is_queried_with_the_parsed_search_params_witness:
  "findTeams_input sample_parse
       (Some [(''query'', ''acme''), (''page'', ''2''), (''query'', ''beta'')])
     = Inr [(''term'', JStr ''beta''), (''page'', JNum 2), (''perPage'', JUndefined)]
   \<and> onPaginationChange (\<lambda>params. params) 3 20 = [(''page'', JNum 3), (''perPage'', JNum 20)]"
proof -
  have "sample_parse (map_of (rev (case Some [(''query'', ''acme''), (''page'', ''2''),
                                              (''query'', ''beta'')] of
                                     None \<Rightarrow> [] | Some sp \<Rightarrow> sp)))
          = Inr \<lparr> parsed_query = Some ''beta'', parsed_page = Some 2, parsed_perPage = None \<rparr>"
    by (simp add: sample_parse_def)
  from findTeams_is_queried_with_the_parsed_search_params
         [of sample_parse "Some [(''query'', ''acme''), (''page'', ''2''), (''query'', ''beta'')]"
             "\<lparr> parsed_query = Some ''beta'', parsed_page = Some 2, parsed_perPage = None \<rparr>"
             "\<lambda>params. params" 3 20, OF this]
  show ?thesis by simp
qed

text \<open>
  C8, as the source has it. The table is bound to the server query and is not sortable:
  the query a render sends is exactly the search term, the page and the page size that
  were parsed from the URL search params, under the properties \<open>term\<close>, \<open>page\<close> and
  \<open>perPage\<close> and no other, so no sort order is part of the query state; and two renders
  whose queries agree on \<open>term\<close>, \<open>page\<close> and \<open>perPage\<close> send the same query.
\<close>

theorem findTeams_query_is_term_page_perPage_only:
  assumes "findTeams_input parse searchParams = Inr q"
    and "findTeams_input parse searchParams' = Inr q'"
  shows "(\<exists>p. parse (map_of (rev (case searchParams of None \<Rightarrow> [] | Some sp \<Rightarrow> sp))) = Inr p
            \<and> q = [(''term'', case parsed_query p of None \<Rightarrow> JUndefined | Some s \<Rightarrow> JStr s),
                    (''page'', case parsed_page p of None \<Rightarrow> JUndefined | Some n \<Rightarrow> JNum n),
                    (''perPage'', case parsed_perPage p of None \<Rightarrow> JUndefined | Some n \<Rightarrow> JNum n)])
       \<and> map fst q = [''term'', ''page'', ''perPage'']
       \<and> (map_of q ''term'' = map_of q' ''term'' \<and> map_of q ''page'' = map_of q' ''page''
            \<and> map_of q ''perPage'' = map_of q' ''perPage'' \<longrightarrow> q = q')"
proof -
  from assms(1) obtain p where
    p: "parse (map_of (rev (case searchParams of None \<Rightarrow> [] | Some sp \<Rightarrow> sp))) = Inr p"
    and q: "q = [(''term'', optional JStr (parsed_query p)),
                 (''page'', optional JNum (parsed_page p)),
                 (''perPage'', optional JNum (parsed_perPage p))]"
  proof (cases "parse (Object_fromEntries (case searchParams of None \<Rightarrow> [] | Some sp \<Rightarrow> sp))")
    case (Inl err)
    with assms(1) show ?thesis by (simp add: findTeams_input_def)
  next
    case (Inr p)
    with assms(1) show ?thesis
      by (intro that [of p]) (simp_all add: findTeams_input_def Object_fromEntries_last_wins)
  qed
  from assms(2) obtain p' :: ParsedSearchParams where
    q': "q' = [(''term'', optional JStr (parsed_query p')),
                 (''page'', optional JNum (parsed_page p')),
                 (''perPage'', optional JNum (parsed_perPage p'))]"
  proof (cases "parse (Object_fromEntries (case searchParams' of None \<Rightarrow> [] | Some sp \<Rightarrow> sp))")
    case (Inl err)
    with assms(2) show ?thesis by (simp add: findTeams_input_def)
  next
    case (Inr p')
    with assms(2) show ?thesis by (intro that [of p']) (simp add: findTeams_input_def)
  qed
  have first: "\<exists>p. parse (map_of (rev (case searchParams of None \<Rightarrow> [] | Some sp \<Rightarrow> sp))) = Inr p
            \<and> q = [(''term'', case parsed_query p of None \<Rightarrow> JUndefined | Some s \<Rightarrow> JStr s),
                    (''page'', case parsed_page p of None \<Rightarrow> JUndefined | Some n \<Rightarrow> JNum n),
                    (''perPage'', case parsed_perPage p of None \<Rightarrow> JUndefined | Some n \<Rightarrow> JNum n)]"
    using p q by (intro exI [of _ p]) (simp add: optional_def)
  have keys: "map fst q = [''term'', ''page'', ''perPage'']"
    by (simp add: q)
  have same: "q = q'" if "map_of q ''term'' = map_of q' ''term''"
    "map_of q ''page'' = map_of q' ''page''" "map_of q ''perPage'' = map_of q' ''perPage''"
    using that by (simp add: q q')
  from first keys same show ?thesis by blast
qed

theorem findTeams_query_is_term_page_perPage_only_witness:
  "findTeams_input sample_parse (Some [(''query'', ''acme''), (''sort'', ''name'')])
     = Inr [(''term'', JStr ''acme''), (''page'', JUndefined), (''perPage'', JUndefined)]
   \<and> findTeams_input sample_parse (Some [(''sort'', ''url''), (''query'', ''acme'')])
     = Inr [(''term'', JStr ''acme''), (''page'', JUndefined), (''perPage'', JUndefined)]
   \<and> map fst [(''term'', JStr ''acme''), (''page'', JUndefined), (''perPage'', JUndefined)]
       = [''term'', ''page'', ''perPage'']"
proof -
  have a: "findTeams_input sample_parse (Some [(''query'', ''acme''), (''sort'', ''name'')])
     = Inr [(''term'', JStr ''acme''), (''page'', JUndefined), (''perPage'', JUndefined)]"
    by (simp add: findTeams_input_def sample_parse_def Object_fromEntries_def optional_def)
  have b: "findTeams_input sample_parse (Some [(''sort'', ''url''), (''query'', ''acme'')])
     = Inr [(''term'', JStr ''acme''), (''page'', JUndefined), (''perPage'', JUndefined)]"
    by (simp add: findTeams_input_def sample_parse_def Object_fromEntries_def optional_def)
  from findTeams_query_is_term_page_perPage_only [OF a b] a b show ?thesis by simp
qed

text \<open>
  C8, as the claim states it, does not hold: no render, whatever the URL search params and
  whatever the parser returns, sends a query with a property besides \<open>term\<close>, \<open>page\<close> and
  \<open>perPage\<close>, and a sort order would be such a property.
\<close>

theorem sortable_query_state_counterexample:
  "\<not> (\<exists>parse searchParams q k.
          findTeams_input parse searchParams = Inr q
        \<and> k \<in> set (map fst q)
        \<and> k \<notin> {''term'', ''page'', ''perPage''})"
  by (auto simp add: findTeams_input_def split: sum.splits)

section \<open>The layout\<close>

text \<open>
  C9. Without a session the layout redirects to \<open>/signin\<close> and makes no call of
  \<open>getTeams\<close>; with a session it calls \<open>getTeams\<close> once, with the user id of that
  session.
\<close>

theorem layout_fetches_teams_only_with_a_session:
  "(getServerSession env = None \<longrightarrow>
      AuthenticatedTeamsDashboardLayout env
        = (Redirected ''/signin'', [Call_getServerSession, Call_redirect ''/signin''])
      \<and> getTeams_calls (snd (AuthenticatedTeamsDashboardLayout env)) = [])
   \<and> (\<forall>s. getServerSession env = Some s \<longrightarrow>
         getTeams_calls (snd (AuthenticatedTeamsDashboardLayout env)) = [session_user_id s])"
  by (auto simp add: AuthenticatedTeamsDashboardLayout_def Let_def split: sum.splits)

theorem layout_fetches_teams_only_with_a_session_witness:
  "AuthenticatedTeamsDashboardLayout signed_out
     = (Redirected ''/signin'', [Call_getServerSession, Call_redirect ''/signin''])
   \<and> getTeams_calls (snd (AuthenticatedTeamsDashboardLayout signed_out)) = []
   \<and> getTeams_calls (snd (AuthenticatedTeamsDashboardLayout signed_in)) = [7]"
proof -
  have out: "getServerSession signed_out = None"
    by (simp add: signed_out_def)
  have "getServerSession signed_in = Some \<lparr>session_user_id = 7\<rparr>"
    by (simp add: signed_in_def)
  with layout_fetches_teams_only_with_a_session [of signed_in]
  have "getTeams_calls (snd (AuthenticatedTeamsDashboardLayout signed_in)) = [7]"
    by simp
  with layout_fetches_teams_only_with_a_session [of signed_out] out show ?thesis
    by simp
qed

end
